theory Spec2Isabelle
  imports Complex_Main
begin

section \<open>The icon compositor of process\_icon.py\<close>

text \<open>
  The program is one routine, \<open>create_macos_icon\<close>, and a command-line entry point.
  The routine is a fixed sequence of calls into the Pillow imaging library. The model
  keeps the sequence, the constants and the arguments of the script; the library is
  modelled by what each call does to the size and the pixels of an image, and every
  call may raise.
\<close>

subsection \<open>Constants of the script (lines 11--13, 23, 32, 37--41)\<close>

definition CANVAS_SIZE :: int where
  "CANVAS_SIZE = 1024"

definition SHAPE_SIZE :: int where
  "SHAPE_SIZE = 824"

definition PADDING :: int where
  "PADDING = (CANVAS_SIZE - SHAPE_SIZE) div 2"

text \<open>
  Python's \<open>int(x)\<close> on a float truncates towards zero. The two float products of the
  script, \<open>824 * 0.22\<close> and \<open>824 * 0.98\<close>, are modelled by the exact rationals 181.28 and
  807.52; the binary doubles differ from them by less than one part in a billion, which neither
  the truncation nor any comparison made below can see.
\<close>

definition py_int :: "rat \<Rightarrow> int" where
  "py_int q = (if 0 \<le> q then \<lfloor>q\<rfloor> else \<lceil>q\<rceil>)"

definition radius :: rat where
  "radius = of_int SHAPE_SIZE * (22 / 100)"

definition shadow_size :: int where
  "shadow_size = py_int (of_int SHAPE_SIZE * (98 / 100))"

definition shadow_offset_y :: int where
  "shadow_offset_y = 10"

definition shadow_rect :: "(int \<times> int) \<times> (int \<times> int)" where
  "shadow_rect =
     ((PADDING, PADDING + shadow_offset_y),
      (PADDING + SHAPE_SIZE, PADDING + SHAPE_SIZE + shadow_offset_y))"

subsection \<open>Images, files and exceptions\<close>

text \<open>
  An image is its size and its pixels. The mode is the pixel type: an \<open>L\<close> image has one
  band, an \<open>RGBA\<close> image four. A pixel is read with \<open>px im x y\<close>; only the coordinates
  inside the size belong to the image.
\<close>

type_synonym rgba = "nat \<times> nat \<times> nat \<times> nat"

record 'p image =
  width :: int
  height :: int
  px :: "int \<Rightarrow> int \<Rightarrow> 'p"

datatype raster =
    ModeL "nat image"
  | ModeRGBA "rgba image"
  | ModeOther string "nat list image"

datatype file_data =
    ImageFile string raster
  | Undecodable

datatype pyexn = PyException string

fun message :: "pyexn \<Rightarrow> string" where
  "message (PyException m) = m"

definition bind_exn :: "pyexn + 'a \<Rightarrow> ('a \<Rightarrow> pyexn + 'b) \<Rightarrow> pyexn + 'b" where
  "bind_exn r f = (case r of Inl e \<Rightarrow> Inl e | Inr v \<Rightarrow> f v)"

definition inside :: "'p image \<Rightarrow> int \<Rightarrow> int \<Rightarrow> bool" where
  "inside im x y = (0 \<le> x \<and> x < width im \<and> 0 \<le> y \<and> y < height im)"

subsection \<open>Image.new and ImageDraw.rounded\_rectangle\<close>

definition image_new :: "int \<times> int \<Rightarrow> 'p \<Rightarrow> 'p image" where
  \<comment> \<open>Modelled from the spec: Image.new (Pillow), an image of the given size filled with one colour.\<close>
  "image_new sz color = \<lparr>width = fst sz, height = snd sz, px = (\<lambda>x y. color)\<rparr>"

text \<open>
  Modelled from the spec: \<open>ImageDraw.rounded_rectangle\<close> of the Pillow library, which is
  not among the sources. It draws a filled rounded rectangle: the pixels of the box
  (both corner points included) except those of the four corner squares of side
  \<open>r\<close> that lie outside the quarter disc of radius \<open>r\<close>. Drawing overwrites the
  pixels it covers with the fill and clips at the image border. A box whose second
  point is left of or above the first raises \<open>ValueError\<close>.
\<close>

definition clamp :: "rat \<Rightarrow> rat \<Rightarrow> rat \<Rightarrow> rat" where
  "clamp lo hi v = max lo (min hi v)"

definition in_rounded_rect :: "(int \<times> int) \<times> (int \<times> int) \<Rightarrow> rat \<Rightarrow> int \<Rightarrow> int \<Rightarrow> bool" where
  \<comment> \<open>Modelled from the spec: the pixels of a filled rounded rectangle (ImageDraw.rounded_rectangle, Pillow).\<close>
  "in_rounded_rect box r x y =
     (case box of ((x0, y0), (x1, y1)) \<Rightarrow>
        x0 \<le> x \<and> x \<le> x1 \<and> y0 \<le> y \<and> y \<le> y1 \<and>
        (let cx = clamp (of_int x0 + r) (of_int x1 - r) (of_int x);
             cy = clamp (of_int y0 + r) (of_int y1 - r) (of_int y)
         in (of_int x - cx)\<^sup>2 + (of_int y - cy)\<^sup>2 \<le> r\<^sup>2))"

definition rounded_rectangle ::
  "'p image \<Rightarrow> (int \<times> int) \<times> (int \<times> int) \<Rightarrow> rat \<Rightarrow> 'p \<Rightarrow> pyexn + 'p image" where
  \<comment> \<open>Modelled from the spec: ImageDraw.rounded_rectangle (Pillow), drawing with a fill.\<close>
  "rounded_rectangle im box r fill =
     (case box of ((x0, y0), (x1, y1)) \<Rightarrow>
        if x1 < x0 then Inl (PyException ''x1 must be greater than or equal to x0'')
        else if y1 < y0 then Inl (PyException ''y1 must be greater than or equal to y0'')
        else Inr (im\<lparr>px := (\<lambda>x y.
               if inside im x y \<and> in_rounded_rect box r x y then fill else px im x y)\<rparr>))"

subsection \<open>The environment of a run\<close>

text \<open>
  What a run meets outside the script: the files, the standard output, and the library's
  answers that the script does not fix. The field \<open>fault\<close> says which calls of the
  \<open>try\<close> body raise and with what message (a full disk, exhausted memory, a missing
  permission, a closed standard output at the print of line 57);
  the other fields are the pixel arithmetic of the conversion, of the resampling filter,
  of the Gaussian blur and of the "over" operator, the format registered for a file
  extension, and what a failed save leaves on disk.
\<close>

datatype stage =
    Open | Convert | NewMask | DrawMask | Fit | PutAlpha | NewShadow | DrawShadow
  | Blur | NewCanvas | CompositeShadow | CompositeContent | Save | PrintCreated

record env =
  fault :: "stage \<Rightarrow> string option"
  to_rgba :: "raster \<Rightarrow> int \<Rightarrow> int \<Rightarrow> rgba"
  resample :: "rgba image \<Rightarrow> rat \<times> rat \<times> rat \<times> rat \<Rightarrow> int \<times> int \<Rightarrow> int \<Rightarrow> int \<Rightarrow> rgba"
  blur_px :: "rat \<Rightarrow> rgba image \<Rightarrow> int \<Rightarrow> int \<Rightarrow> rgba"
  over :: "rgba \<Rightarrow> rgba \<Rightarrow> rgba"
  ext_format :: "string \<Rightarrow> string option"
  save_residue :: "(string \<Rightarrow> file_data option) \<Rightarrow> string \<Rightarrow> (string \<Rightarrow> file_data option)"

datatype io_event = OpenRead string | OpenWrite string

record world =
  files :: "string \<Rightarrow> file_data option"
  stdout :: "string list"
  io_log :: "io_event list"

definition lib_call :: "env \<Rightarrow> stage \<Rightarrow> pyexn + 'a \<Rightarrow> pyexn + 'a" where
  "lib_call e s r = (case fault e s of Some m \<Rightarrow> Inl (PyException m) | None \<Rightarrow> r)"

definition print_line :: "world \<Rightarrow> string \<Rightarrow> world" where
  "print_line w s = w\<lparr>stdout := stdout w @ [s]\<rparr>"

definition writes :: "world \<Rightarrow> string list" where
  "writes w = concat (map (\<lambda>ev. case ev of OpenWrite p \<Rightarrow> [p] | OpenRead p \<Rightarrow> []) (io_log w))"

subsection \<open>Image.open and convert\<close>

text \<open>
  How Python shows a path inside the message of an \<open>OSError\<close>: between single quotes
  (exact for a path without quotes, backslashes or unprintable characters).
\<close>

definition quoted :: "string \<Rightarrow> string" where
  "quoted p = [CHR 0x27] @ p @ [CHR 0x27]"

definition image_open :: "env \<Rightarrow> world \<Rightarrow> string \<Rightarrow> (pyexn + raster) \<times> world" where
  \<comment> \<open>Modelled from the spec: Image.open (Pillow): DecodeError when the file cannot be read or decoded.\<close>
  "image_open e w fp =
     (lib_call e Open
        (case files w fp of
           None \<Rightarrow> Inl (PyException (''[Errno 2] No such file or directory: '' @ quoted fp))
         | Some Undecodable \<Rightarrow> Inl (PyException (''cannot identify image file '' @ quoted fp))
         | Some (ImageFile fmt r) \<Rightarrow> Inr r),
      w\<lparr>io_log := io_log w @ [OpenRead fp]\<rparr>)"

fun raster_size :: "raster \<Rightarrow> int \<times> int" where
  "raster_size (ModeL im) = (width im, height im)"
| "raster_size (ModeRGBA im) = (width im, height im)"
| "raster_size (ModeOther m im) = (width im, height im)"

fun convert_rgba :: "env \<Rightarrow> raster \<Rightarrow> rgba image" where
  \<comment> \<open>Modelled from the spec: Image.convert to RGBA (Pillow): same size, four bands.\<close>
  "convert_rgba e (ModeRGBA im) = im"
| "convert_rgba e r =
     \<lparr>width = fst (raster_size r), height = snd (raster_size r), px = to_rgba e r\<rparr>"

subsection \<open>ImageOps.fit\<close>

text \<open>
  Modelled from the spec: \<open>ImageOps.fit\<close> of the Pillow library, which is not among the
  sources. The image is scaled to cover the requested size and cropped; the crop is
  taken in source coordinates, as a box of the aspect ratio of the requested size that
  keeps the shorter dimension whole, placed by the centering fractions, and the box is
  then resampled to the requested size. A source of height 0 makes the ratio a
  division by zero.
\<close>

definition fit_crop_box :: "int \<times> int \<Rightarrow> int \<times> int \<Rightarrow> rat \<times> rat \<Rightarrow> rat \<times> rat \<times> rat \<times> rat" where
  \<comment> \<open>Modelled from the spec: the crop box of ImageOps.fit (Pillow), without bleed.\<close>
  "fit_crop_box isz osz centering =
     (let iw = of_int (fst isz); ih = of_int (snd isz);
          live_size_ratio = iw / ih;
          output_ratio = of_int (fst osz) / of_int (snd osz);
          crop_width = (if live_size_ratio = output_ratio then iw
                        else if output_ratio \<le> live_size_ratio then output_ratio * ih
                        else iw);
          crop_height = (if live_size_ratio = output_ratio then ih
                         else if output_ratio \<le> live_size_ratio then ih
                         else iw / output_ratio);
          crop_left = (iw - crop_width) * fst centering;
          crop_top = (ih - crop_height) * snd centering
      in (crop_left, crop_top, crop_left + crop_width, crop_top + crop_height))"

definition ImageOps_fit :: "env \<Rightarrow> rgba image \<Rightarrow> int \<times> int \<Rightarrow> rat \<times> rat \<Rightarrow> pyexn + rgba image" where
  \<comment> \<open>Modelled from the spec: ImageOps.fit (Pillow), cover and crop, then resample.\<close>
  "ImageOps_fit e im sz centering =
     (if height im = 0 then Inl (PyException ''float division by zero'')
      else if snd sz = 0 then Inl (PyException ''division by zero'')
      else Inr \<lparr>width = fst sz, height = snd sz,
                px = resample e im (fit_crop_box (width im, height im) sz centering) sz\<rparr>)"

subsection \<open>putalpha, GaussianBlur, alpha\_composite, save\<close>

text \<open>
  Modelled from the spec: \<open>Image.putalpha\<close> of the Pillow library, which is not among the
  sources, on an RGBA image with an \<open>L\<close> image as the new alpha band: the alpha of each
  pixel becomes the value of the band image there, and the colour bands stay. Images of
  different sizes do not match.
\<close>

definition putalpha :: "rgba image \<Rightarrow> nat image \<Rightarrow> pyexn + rgba image" where
  \<comment> \<open>Modelled from the spec: Image.putalpha (Pillow): resulting alpha = mask value, RGB unchanged.\<close>
  "putalpha im alpha =
     (if width alpha = width im \<and> height alpha = height im
      then Inr (im\<lparr>px := (\<lambda>x y. case px im x y of (r, g, b, a) \<Rightarrow> (r, g, b, px alpha x y))\<rparr>)
      else Inl (PyException ''images do not match''))"

text \<open>
  Modelled from the spec: \<open>Image.filter\<close> with \<open>ImageFilter.GaussianBlur\<close>, which is not
  among the sources: a new image of the same size, every pixel computed from the
  whole source image and the blur radius.
\<close>

definition gaussian_blur :: "env \<Rightarrow> rat \<Rightarrow> rgba image \<Rightarrow> rgba image" where
  \<comment> \<open>Modelled from the spec: Image.filter with ImageFilter.GaussianBlur (Pillow).\<close>
  "gaussian_blur e r im = \<lparr>width = width im, height = height im, px = blur_px e r im\<rparr>"

text \<open>
  Modelled from the spec: the in-place \<open>Image.alpha_composite\<close>, which is not among the
  sources: the other image is laid over this one with its top left corner at \<open>dest\<close>;
  inside that box each pixel becomes the "over" blend of the old pixel and the pixel of
  the other image, outside it nothing changes, and the size stays. A negative
  destination raises \<open>ValueError\<close>.
\<close>

definition alpha_composite ::
  "env \<Rightarrow> rgba image \<Rightarrow> rgba image \<Rightarrow> int \<times> int \<Rightarrow> pyexn + rgba image" where
  \<comment> \<open>Modelled from the spec: the in-place Image.alpha_composite (Pillow).\<close>
  "alpha_composite e self im dest =
     (if fst dest < 0 \<or> snd dest < 0 then Inl (PyException ''Destination must be non-negative'')
      else Inr (self\<lparr>px := (\<lambda>x y.
             if inside self x y \<and> inside im (x - fst dest) (y - snd dest)
             then over e (px self x y) (px im (x - fst dest) (y - snd dest))
             else px self x y)\<rparr>))"

text \<open>
  Modelled from the spec: \<open>Image.save\<close>, which is not among the sources. The encoder is
  the one named by the format argument when there is one, and otherwise the one
  registered for the extension of the path. A stored image file is kept as its format
  and its raster: the encoders are functions of the raster alone. A save that fails
  leaves on disk whatever the environment says.
\<close>

definition image_save ::
  "env \<Rightarrow> world \<Rightarrow> rgba image \<Rightarrow> string \<Rightarrow> string option \<Rightarrow> (pyexn + unit) \<times> world" where
  \<comment> \<open>Modelled from the spec: Image.save (Pillow) with an optional format argument.\<close>
  "image_save e w im fp format =
     (let w1 = w\<lparr>io_log := io_log w @ [OpenWrite fp]\<rparr>
      in case fault e Save of
           Some m \<Rightarrow> (Inl (PyException m), w1\<lparr>files := save_residue e (files w) fp\<rparr>)
         | None \<Rightarrow>
            (case (case format of Some f \<Rightarrow> Some f | None \<Rightarrow> ext_format e fp) of
               None \<Rightarrow> (Inl (PyException ''unknown file extension''), w)
             | Some f \<Rightarrow> (Inr (), w1\<lparr>files := (files w)(fp \<mapsto> ImageFile f (ModeRGBA im))\<rparr>)))"

subsection \<open>create\_macos\_icon (lines 4--61) and the entry point (lines 63--68)\<close>

text \<open>Lines 19--24: the mask.\<close>

definition make_mask :: "env \<Rightarrow> pyexn + nat image" where
  "make_mask e =
     bind_exn (lib_call e NewMask (Inr (image_new (SHAPE_SIZE, SHAPE_SIZE) 0))) (\<lambda>mask_img.
       lib_call e DrawMask
         (rounded_rectangle mask_img ((0, 0), (SHAPE_SIZE, SHAPE_SIZE)) radius 255))"

text \<open>Line 27: the source fitted to the shape size.\<close>

definition fit_content :: "env \<Rightarrow> rgba image \<Rightarrow> pyexn + rgba image" where
  "fit_content e img =
     lib_call e Fit (ImageOps_fit e img (SHAPE_SIZE, SHAPE_SIZE) (1 / 2, 1 / 2))"

text \<open>Lines 27--28: the content layer.\<close>

definition make_content :: "env \<Rightarrow> rgba image \<Rightarrow> nat image \<Rightarrow> pyexn + rgba image" where
  "make_content e img mask_img =
     bind_exn (fit_content e img) (\<lambda>content. lib_call e PutAlpha (putalpha content mask_img))"

text \<open>
  Lines 32--45: the shadow before the blur. Line 32 computes \<open>shadow_size\<close>; no later
  line reads it, and the rectangle drawn is \<open>shadow_rect\<close>.
\<close>

definition draw_shadow :: "env \<Rightarrow> pyexn + rgba image" where
  "draw_shadow e =
     bind_exn (lib_call e NewShadow (Inr (image_new (CANVAS_SIZE, CANVAS_SIZE) (0, 0, 0, 0))))
       (\<lambda>shadow.
       lib_call e DrawShadow (rounded_rectangle shadow shadow_rect radius (0, 0, 0, 160)))"

text \<open>Lines 32--48: the shadow layer.\<close>

definition make_shadow :: "env \<Rightarrow> pyexn + rgba image" where
  "make_shadow e =
     bind_exn (draw_shadow e) (\<lambda>shadow. lib_call e Blur (Inr (gaussian_blur e 15 shadow)))"

text \<open>Lines 51--53: the final canvas.\<close>

definition composite :: "env \<Rightarrow> rgba image \<Rightarrow> rgba image \<Rightarrow> pyexn + rgba image" where
  "composite e shadow content =
     bind_exn (lib_call e NewCanvas (Inr (image_new (CANVAS_SIZE, CANVAS_SIZE) (0, 0, 0, 0))))
       (\<lambda>final_canvas.
     bind_exn (lib_call e CompositeShadow (alpha_composite e final_canvas shadow (0, 0)))
       (\<lambda>final_canvas.
       lib_call e CompositeContent
         (alpha_composite e final_canvas content (PADDING, PADDING))))"

text \<open>Lines 19--53, from the converted source image to the final canvas.\<close>

definition render :: "env \<Rightarrow> rgba image \<Rightarrow> pyexn + rgba image" where
  "render e img =
     bind_exn (make_mask e) (\<lambda>mask_img.
     bind_exn (make_content e img mask_img) (\<lambda>content.
     bind_exn (make_shadow e) (\<lambda>shadow.
       composite e shadow content)))"

text \<open>Lines 16--53: everything before the save.\<close>

definition prepare :: "env \<Rightarrow> world \<Rightarrow> string \<Rightarrow> (pyexn + rgba image) \<times> world" where
  "prepare e w input_path =
     (case image_open e w input_path of (r, w1) \<Rightarrow>
        (bind_exn (bind_exn r (\<lambda>src. lib_call e Convert (Inr (convert_rgba e src)))) (render e),
         w1))"

text \<open>
  Lines 11--57: the body of the \<open>try\<close>. The print of line 57 is its last call and can
  raise like the others; when it does, the file is saved already and nothing is printed
  by that line.
\<close>

definition attempt :: "env \<Rightarrow> world \<Rightarrow> string \<Rightarrow> string \<Rightarrow> (pyexn + unit) \<times> world" where
  "attempt e w input_path output_path =
     (case prepare e w input_path of
        (Inl ex, w1) \<Rightarrow> (Inl ex, w1)
      | (Inr final_canvas, w1) \<Rightarrow>
          (case image_save e w1 final_canvas output_path (Some ''PNG'') of
             (Inl ex, w2) \<Rightarrow> (Inl ex, w2)
           | (Inr u, w2) \<Rightarrow>
               (case lib_call e PrintCreated (Inr ()) of
                  Inl ex \<Rightarrow> (Inl ex, w2)
                | Inr u' \<Rightarrow>
                    (Inr (),
                     print_line w2 (''Created macOS-compliant icon at '' @ output_path)))))"

text \<open>
  How a call ends: it returns, or the interpreter exits with a status. Lines 59--61 catch
  every \<open>Exception\<close>, print its message and exit with status 1. The print of the
  handler itself is taken to succeed.
\<close>

datatype outcome = Returned | Exited int

definition create_macos_icon :: "env \<Rightarrow> world \<Rightarrow> string \<Rightarrow> string \<Rightarrow> world \<times> outcome" where
  "create_macos_icon e w input_path output_path =
     (case attempt e w input_path output_path of
        (Inr u, w1) \<Rightarrow> (w1, Returned)
      | (Inl ex, w1) \<Rightarrow> (print_line w1 (''Error processing image: '' @ message ex), Exited 1))"

text \<open>
  Lines 63--68. The list \<open>argv\<close> starts with the program name. A run that reaches the end
  of the script exits with status 0.
\<close>

definition usage :: string where
  "usage = ''Usage: python3 process_icon.py <input> <output>''"

definition main :: "env \<Rightarrow> world \<Rightarrow> string list \<Rightarrow> world \<times> int" where
  "main e w argv =
     (if length argv < 3 then (print_line w usage, 1)
      else case create_macos_icon e w (argv ! 1) (argv ! 2) of
             (w1, Returned) \<Rightarrow> (w1, 0)
           | (w1, Exited n) \<Rightarrow> (w1, n))"

subsection \<open>A concrete environment and a concrete source image\<close>

text \<open>
  An environment in which no library call fails, with nearest-neighbour resampling, a
  blur that leaves the image as it is, and an "over" that keeps the upper pixel unless
  it is fully transparent; and a 500 by 300 opaque red source image.
\<close>

definition plain_env :: env where
  "plain_env =
     \<lparr>fault = (\<lambda>s. None),
      to_rgba = (\<lambda>r x y. (0, 0, 0, 255)),
      resample = (\<lambda>im box sz x y.
         case box of (l, t, r, b) \<Rightarrow>
           px im \<lfloor>l + (of_int x + 1 / 2) * (r - l) / of_int (fst sz)\<rfloor>
                 \<lfloor>t + (of_int y + 1 / 2) * (b - t) / of_int (snd sz)\<rfloor>),
      blur_px = (\<lambda>r im. px im),
      over = (\<lambda>dst src. case src of (r, g, b, a) \<Rightarrow> if a = 0 then dst else src),
      ext_format = (\<lambda>p. if p = ''icon.jpg'' then Some ''JPEG'' else None),
      save_residue = (\<lambda>fs p. fs)\<rparr>"

definition red_500x300 :: "rgba image" where
  "red_500x300 = \<lparr>width = 500, height = 300, px = (\<lambda>x y. (255, 0, 0, 255))\<rparr>"

definition red_world :: world where
  "red_world =
     \<lparr>files = [''red.png'' \<mapsto> ImageFile ''PNG'' (ModeRGBA red_500x300)],
      stdout = [], io_log = []\<rparr>"

definition blur_fails_env :: env where
  "blur_fails_env =
     plain_env\<lparr>fault := (\<lambda>s. if s = Blur then Some ''out of memory'' else None)\<rparr>"

section \<open>Properties\<close>

subsection \<open>Stepping through the sequence of calls\<close>

lemma bind_exn_Inr: "bind_exn r f = Inr v \<longleftrightarrow> (\<exists>u. r = Inr u \<and> f u = Inr v)"
  by (cases r) (simp_all add: bind_exn_def)

lemma lib_call_Inr: "lib_call e s r = Inr v \<longleftrightarrow> fault e s = None \<and> r = Inr v"
  by (cases "fault e s") (simp_all add: lib_call_def)

lemma alpha_composite_size:
  "alpha_composite e a b d = Inr c \<Longrightarrow> width c = width a \<and> height c = height a"
  by (auto simp: alpha_composite_def split: if_splits)

lemma composite_size:
  "composite e shadow content = Inr c \<Longrightarrow> width c = 1024 \<and> height c = 1024"
  by (auto simp: composite_def bind_exn_Inr lib_call_Inr image_new_def CANVAS_SIZE_def
      dest!: alpha_composite_size)

lemma render_size: "render e img = Inr c \<Longrightarrow> width c = 1024 \<and> height c = 1024"
  by (auto simp: render_def bind_exn_Inr dest: composite_size)

lemma prepare_size:
  "prepare e w i = (Inr c, w1) \<Longrightarrow> width c = 1024 \<and> height c = 1024"
  by (auto simp: prepare_def bind_exn_Inr split: prod.splits dest: render_size)

lemma prepare_world: "snd (prepare e w i) = w\<lparr>io_log := io_log w @ [OpenRead i]\<rparr>"
  by (simp add: prepare_def image_open_def split: prod.splits)

lemma image_save_ok:
  "image_save e w im fp (Some f) = (Inr u, w2) \<Longrightarrow>
     w2 = w\<lparr>io_log := io_log w @ [OpenWrite fp],
            files := (files w)(fp \<mapsto> ImageFile f (ModeRGBA im))\<rparr>"
  by (auto simp: image_save_def Let_def split: option.splits)

text \<open>A call that returns has built the canvas and stored it, as PNG, at the output path.\<close>

lemma returned_saved:
  assumes "create_macos_icon e w i o' = (w', Returned)"
  shows "\<exists>c w1. prepare e w i = (Inr c, w1) \<and>
           files w' o' = Some (ImageFile ''PNG'' (ModeRGBA c))"
proof -
  obtain r w1 where p: "prepare e w i = (r, w1)" by (cases "prepare e w i")
  show ?thesis
  proof (cases r)
    case (Inl ex)
    with p assms show ?thesis by (simp add: create_macos_icon_def attempt_def)
  next
    case (Inr c)
    obtain s w2 where sv: "image_save e w1 c o' (Some ''PNG'') = (s, w2)"
      by (cases "image_save e w1 c o' (Some ''PNG'')")
    show ?thesis
    proof (cases s)
      case (Inl ex)
      with p Inr sv assms show ?thesis by (simp add: create_macos_icon_def attempt_def)
    next
      case (Inr u)
      note su = this
      from image_save_ok[of e w1 c o' "''PNG''" u w2] sv su
      have w2: "files w2 o' = Some (ImageFile ''PNG'' (ModeRGBA c))" by simp
      from p \<open>r = Inr c\<close> sv su assms
      have "w' = print_line w2 (''Created macOS-compliant icon at '' @ o')"
        by (simp add: create_macos_icon_def attempt_def split: sum.splits)
      with w2 p \<open>r = Inr c\<close> show ?thesis by (simp add: print_line_def)
    qed
  qed
qed

text \<open>The definitions to unfold when a run is evaluated on a concrete world.\<close>

lemmas run_defs = create_macos_icon_def attempt_def prepare_def image_open_def render_def
  make_mask_def make_content_def fit_content_def make_shadow_def draw_shadow_def composite_def
  lib_call_def bind_exn_def image_save_def print_line_def rounded_rectangle_def image_new_def
  ImageOps_fit_def putalpha_def alpha_composite_def gaussian_blur_def shadow_rect_def
  CANVAS_SIZE_def SHAPE_SIZE_def PADDING_def shadow_offset_y_def plain_env_def red_world_def
  red_500x300_def Let_def

lemma red_run_returns:
  "snd (create_macos_icon plain_env red_world ''red.png'' p) = Returned"
  by (simp add: run_defs)

text \<open>A run that returns met no failing library call; a failing call ends the run with status 1.\<close>

lemma attempt_ok_no_fault:
  assumes "attempt e w i o' = (Inr u, w1)"
  shows "fault e s = None"
proof -
  from assms obtain c w0 where p: "prepare e w i = (Inr c, w0)"
    and sv: "fst (image_save e w0 c o' (Some ''PNG'')) = Inr ()"
    and pr: "lib_call e PrintCreated (Inr ()) = Inr ()"
    by (auto simp: attempt_def split: prod.splits sum.splits)
  from sv have s13: "fault e Save = None"
    by (auto simp: image_save_def Let_def split: option.splits)
  from pr have s14: "fault e PrintCreated = None"
    by (simp add: lib_call_Inr)
  from p have rest: "fault e Open = None" "fault e Convert = None" "fault e NewMask = None"
    "fault e DrawMask = None" "fault e Fit = None" "fault e PutAlpha = None"
    "fault e NewShadow = None" "fault e DrawShadow = None" "fault e Blur = None"
    "fault e NewCanvas = None" "fault e CompositeShadow = None" "fault e CompositeContent = None"
    by (auto simp: prepare_def image_open_def render_def make_mask_def make_content_def
        fit_content_def make_shadow_def draw_shadow_def composite_def bind_exn_Inr lib_call_Inr
        split: prod.splits)
  from s13 s14 rest show ?thesis by (cases s) simp_all
qed

lemma faulty_stage_exits_1:
  assumes "fault e s = Some m"
  shows "snd (create_macos_icon e w i o') = Exited 1"
proof (cases "attempt e w i o'")
  case (Pair r w1)
  show ?thesis
  proof (cases r)
    case (Inl ex)
    with Pair show ?thesis by (simp add: create_macos_icon_def)
  next
    case (Inr u)
    with Pair attempt_ok_no_fault[of e w i o' u w1 s] assms show ?thesis by simp
  qed
qed

text \<open>
  When the print of line 57 raises, the file is saved already; the handler reports the
  exception and the run exits with status 1.
\<close>

lemma print_failure_after_save:
  assumes "prepare e w i = (Inr c, w1)"
    and "fault e Save = None"
    and "fault e PrintCreated = Some m"
  shows "create_macos_icon e w i o'
           = (print_line
                (w1\<lparr>io_log := io_log w1 @ [OpenWrite o'],
                     files := (files w1)(o' \<mapsto> ImageFile ''PNG'' (ModeRGBA c))\<rparr>)
                (''Error processing image: '' @ m), Exited 1)"
  using assms
  by (simp add: create_macos_icon_def attempt_def image_save_def lib_call_def Let_def)

subsection \<open>The output file\<close>

text \<open>
  Claim C2. For every input image, whatever its width, height and mode, a run of
  \<open>create_macos_icon\<close> that returns has written at the output path a PNG file whose
  raster is RGBA (it has an alpha channel) and exactly 1024 by 1024 pixels.
\<close>

theorem output_is_1024_rgba_png:
  assumes "create_macos_icon e w input_path output_path = (w', Returned)"
  shows "\<exists>c. files w' output_path = Some (ImageFile ''PNG'' (ModeRGBA c)) \<and>
             width c = CANVAS_SIZE \<and> height c = CANVAS_SIZE \<and> CANVAS_SIZE = 1024"
  using returned_saved[OF assms] by (auto simp: CANVAS_SIZE_def dest: prepare_size)

theorem output_is_1024_rgba_png_witness:
  "snd (create_macos_icon plain_env red_world ''red.png'' ''icon.png'') = Returned \<and>
   (\<exists>c. files (fst (create_macos_icon plain_env red_world ''red.png'' ''icon.png'')) ''icon.png''
          = Some (ImageFile ''PNG'' (ModeRGBA c)) \<and>
        width c = CANVAS_SIZE \<and> height c = CANVAS_SIZE \<and> CANVAS_SIZE = 1024)"
proof -
  have r: "snd (create_macos_icon plain_env red_world ''red.png'' ''icon.png'') = Returned"
    by (rule red_run_returns)
  then have "create_macos_icon plain_env red_world ''red.png'' ''icon.png''
      = (fst (create_macos_icon plain_env red_world ''red.png'' ''icon.png''), Returned)"
    by (simp add: prod_eq_iff)
  from output_is_1024_rgba_png[OF this] r show ?thesis by simp
qed

text \<open>
  Claim C10. The save names the PNG encoder, so the file written by a run that returns
  is a PNG file whatever the output path is, also when its extension is registered for
  another format (as \<open>icon.jpg\<close> is for JPEG in the environment of the witness).
\<close>

theorem output_format_is_png:
  assumes "create_macos_icon e w input_path output_path = (w', Returned)"
  shows "\<exists>r. files w' output_path = Some (ImageFile ''PNG'' r)"
  using returned_saved[OF assms] by auto

theorem output_format_is_png_witness:
  "ext_format plain_env ''icon.jpg'' = Some ''JPEG'' \<and>
   snd (create_macos_icon plain_env red_world ''red.png'' ''icon.jpg'') = Returned \<and>
   (\<exists>r. files (fst (create_macos_icon plain_env red_world ''red.png'' ''icon.jpg'')) ''icon.jpg''
          = Some (ImageFile ''PNG'' r))"
proof -
  have r: "snd (create_macos_icon plain_env red_world ''red.png'' ''icon.jpg'') = Returned"
    by (rule red_run_returns)
  then have "create_macos_icon plain_env red_world ''red.png'' ''icon.jpg''
      = (fst (create_macos_icon plain_env red_world ''red.png'' ''icon.jpg''), Returned)"
    by (simp add: prod_eq_iff)
  from output_format_is_png[OF this] r show ?thesis by (simp add: plain_env_def)
qed

subsection \<open>Failures\<close>



text \<open>
  Claim C4. When a run fails at a call before the save (the open, the conversion, or any
  call that builds the mask, the content, the shadow or the canvas), no file has been
  written: the files are those of the start and no file was opened for writing. The
  save is the only call that writes, and it comes after the canvas is built.
\<close>

theorem no_write_before_canvas_is_built:
  assumes "prepare e w input_path = (Inl ex, w1)"
  shows "files (fst (create_macos_icon e w input_path output_path)) = files w \<and>
         writes (fst (create_macos_icon e w input_path output_path)) = writes w"
proof -
  from prepare_world[of e w input_path] assms
  have "w1 = w\<lparr>io_log := io_log w @ [OpenRead input_path]\<rparr>" by simp
  with assms show ?thesis
    by (simp add: create_macos_icon_def attempt_def print_line_def writes_def)
qed

theorem no_write_before_canvas_is_built_witness:
  "prepare blur_fails_env red_world ''red.png''
     = (Inl (PyException ''out of memory''), red_world\<lparr>io_log := [OpenRead ''red.png'']\<rparr>) \<and>
   files (fst (create_macos_icon blur_fails_env red_world ''red.png'' ''icon.png''))
     = files red_world \<and>
   writes (fst (create_macos_icon blur_fails_env red_world ''red.png'' ''icon.png'')) = []"
proof -
  have a: "prepare blur_fails_env red_world ''red.png''
     = (Inl (PyException ''out of memory''), red_world\<lparr>io_log := [OpenRead ''red.png'']\<rparr>)"
    by (simp add: run_defs blur_fails_env_def)
  have b: "writes red_world = []" by (simp add: writes_def red_world_def)
  from no_write_before_canvas_is_built[OF a, of "''icon.png''"] a b show ?thesis by simp
qed

text \<open>
  Claim C8. Started with fewer than two arguments after the program name, the program
  prints the usage line to the standard output and exits with status 1; it does not
  call \<open>create_macos_icon\<close>: the files are untouched and no file is opened.
\<close>

theorem too_few_arguments_print_usage:
  assumes "length args < 2"
  shows "main e w (prog # args) = (print_line w usage, 1) \<and>
         stdout (fst (main e w (prog # args))) = stdout w @ [usage] \<and>
         files (fst (main e w (prog # args))) = files w \<and>
         io_log (fst (main e w (prog # args))) = io_log w"
  using assms by (simp add: main_def print_line_def)

theorem too_few_arguments_print_usage_witness:
  "length [''red.png''] < 2 \<and>
   main plain_env red_world [''process_icon.py'', ''red.png'']
     = (red_world\<lparr>stdout := [''Usage: python3 process_icon.py <input> <output>'']\<rparr>, 1)"
proof -
  have l: "length [''red.png''] < 2" by simp
  from too_few_arguments_print_usage[OF l, of plain_env red_world "''process_icon.py''"] l
  show ?thesis by (simp add: print_line_def usage_def red_world_def)
qed

subsection \<open>The layers\<close>

text \<open>
  Claim C6. The mask of step 2, whenever it is built, is a SHAPE_SIZE by SHAPE_SIZE
  single-band image with value 0 at the corner pixel (0, 0), which lies outside the
  rounded corner, and value 255 at the centre pixel (412, 412).
\<close>

theorem mask_corner_and_centre:
  assumes "make_mask e = Inr m"
  shows "width m = SHAPE_SIZE \<and> height m = SHAPE_SIZE \<and>
         px m 0 0 = 0 \<and> px m (SHAPE_SIZE div 2) (SHAPE_SIZE div 2) = 255"
  using assms
  by (auto simp: make_mask_def bind_exn_Inr lib_call_Inr rounded_rectangle_def image_new_def
      SHAPE_SIZE_def radius_def in_rounded_rect_def inside_def clamp_def power2_eq_square)

theorem mask_corner_and_centre_witness:
  "\<exists>m. make_mask plain_env = Inr m \<and> width m = SHAPE_SIZE \<and> height m = SHAPE_SIZE \<and>
       px m 0 0 = 0 \<and> px m (SHAPE_SIZE div 2) (SHAPE_SIZE div 2) = 255"
proof -
  obtain m where m: "make_mask plain_env = Inr m" by (simp add: run_defs)
  from mask_corner_and_centre[OF m] m show ?thesis by simp
qed

text \<open>
  Claim C7. The fit of step 3 crops around the centre: for a source of width \<open>w\<close> and
  height \<open>h\<close>, the content is the resampling of the source box that keeps the shorter
  dimension whole and leaves out \<open>(w - min w h) / 2\<close> at the left and as much at the
  right, \<open>(h - min w h) / 2\<close> at the top and as much at the bottom. The scaling to
  SHAPE_SIZE is uniform, so the amounts are equal after scaling as well.
\<close>

theorem crop_is_centred:
  assumes "0 < width img" and "0 < height img" and "fit_content e img = Inr content"
  shows "let w = of_int (width img); h = of_int (height img);
             l = (w - min w h) / 2; t = (h - min w h) / 2
         in px content = resample e img (l, t, w - l, h - t) (SHAPE_SIZE, SHAPE_SIZE) \<and>
            width content = SHAPE_SIZE \<and> height content = SHAPE_SIZE"
proof -
  let ?w = "of_int (width img) :: rat" and ?h = "of_int (height img) :: rat"
  from assms have pos: "0 < ?w" "0 < ?h" by simp_all
  have box: "fit_crop_box (width img, height img) (SHAPE_SIZE, SHAPE_SIZE) (1 / 2, 1 / 2)
      = ((?w - min ?w ?h) / 2, (?h - min ?w ?h) / 2,
         ?w - (?w - min ?w ?h) / 2, ?h - (?h - min ?w ?h) / 2)"
    using pos by (auto simp: fit_crop_box_def Let_def SHAPE_SIZE_def min_def field_simps)
  from assms(3) have "content = \<lparr>width = SHAPE_SIZE, height = SHAPE_SIZE,
      px = resample e img
             (fit_crop_box (width img, height img) (SHAPE_SIZE, SHAPE_SIZE) (1 / 2, 1 / 2))
             (SHAPE_SIZE, SHAPE_SIZE)\<rparr>"
    by (auto simp: fit_content_def lib_call_Inr ImageOps_fit_def split: if_splits)
  with box show ?thesis by (simp add: Let_def)
qed

theorem crop_is_centred_witness:
  "\<exists>content. fit_content plain_env red_500x300 = Inr content \<and>
     px content = resample plain_env red_500x300 (100, 0, 400, 300) (SHAPE_SIZE, SHAPE_SIZE) \<and>
     width content = SHAPE_SIZE \<and> height content = SHAPE_SIZE"
proof -
  obtain content where c: "fit_content plain_env red_500x300 = Inr content"
    by (simp add: run_defs)
  have "0 < width red_500x300" "0 < height red_500x300" by (simp_all add: red_500x300_def)
  from crop_is_centred[OF this c] c show ?thesis by (simp add: Let_def red_500x300_def)
qed

text \<open>
  Claim C9. Step 4 replaces the alpha channel only: at every pixel of the resized
  content image, the content layer has the red, green and blue of the resized image and
  the value of the mask as its alpha.
\<close>

theorem putalpha_sets_alpha_keeps_rgb:
  assumes "fit_content e img = Inr fitted"
    and "make_content e img mask_img = Inr content"
    and "inside fitted x y"
  shows "\<exists>r g b a. px fitted x y = (r, g, b, a) \<and> px content x y = (r, g, b, px mask_img x y)"
  using assms
  by (cases "px fitted x y")
     (auto simp: make_content_def bind_exn_Inr lib_call_Inr putalpha_def split: if_splits)

theorem putalpha_sets_alpha_keeps_rgb_witness:
  "\<exists>fitted m content.
     fit_content plain_env red_500x300 = Inr fitted \<and> make_mask plain_env = Inr m \<and>
     make_content plain_env red_500x300 m = Inr content \<and> inside fitted 412 412 \<and>
     px fitted 412 412 = (255, 0, 0, 255) \<and> px m 0 0 = 0 \<and>
     (\<exists>r g b a. px fitted 0 0 = (r, g, b, a) \<and> px content 0 0 = (r, g, b, px m 0 0))"
proof -
  obtain fitted where f: "fit_content plain_env red_500x300 = Inr fitted"
    and fi: "inside fitted 0 0" "inside fitted 412 412" "px fitted 412 412 = (255, 0, 0, 255)"
    by (simp add: run_defs inside_def)
  obtain m where m: "make_mask plain_env = Inr m" "width m = 824" "height m = 824" "px m 0 0 = 0"
    by (simp add: run_defs inside_def in_rounded_rect_def radius_def clamp_def power2_eq_square)
  from f m obtain content where c: "make_content plain_env red_500x300 m = Inr content"
    by (simp add: make_content_def bind_exn_def lib_call_def putalpha_def fit_content_def
        ImageOps_fit_def SHAPE_SIZE_def plain_env_def red_500x300_def)
  from putalpha_sets_alpha_keeps_rgb[OF f c fi(1)] f m c fi show ?thesis by blast
qed

text \<open>
  Claim C1. The shadow of step 5 is said to be drawn 0.98 times SHAPE_SIZE wide, that
  is 807 pixels. Line 32 computes that number, but the rectangle handed to the drawing
  call spans the full SHAPE_SIZE = 824 in both directions, from (100, 110) to
  (924, 934): in the shadow before the blur the pixels of column 920 and of row 930,
  more than 807 pixels from column 100 and from row 110, carry the shadow fill.
\<close>

theorem shadow_rect_spans_shape_size:
  "shadow_size = 807 \<and>
   shadow_rect = ((100, 110), (924, 934)) \<and>
   fst (snd shadow_rect) - fst (fst shadow_rect) = SHAPE_SIZE \<and>
   snd (snd shadow_rect) - snd (fst shadow_rect) = SHAPE_SIZE \<and>
   SHAPE_SIZE = 824 \<and>
   map_sum id (\<lambda>s. (px s 100 500, px s 920 500, px s 500 110, px s 500 930))
     (draw_shadow plain_env)
     = Inr ((0, 0, 0, 160), (0, 0, 0, 160), (0, 0, 0, 160), (0, 0, 0, 160))"
proof -
  have "\<lfloor>20188 / 25 :: rat\<rfloor> = 807" by (simp add: floor_eq_iff)
  then have a: "shadow_size = 807" by (simp add: shadow_size_def py_int_def SHAPE_SIZE_def)
  have b: "shadow_rect = ((100, 110), (924, 934))"
    by (simp add: shadow_rect_def PADDING_def CANVAS_SIZE_def SHAPE_SIZE_def shadow_offset_y_def)
  have c: "map_sum id (\<lambda>s. (px s 100 500, px s 920 500, px s 500 110, px s 500 930))
     (draw_shadow plain_env)
     = Inr ((0, 0, 0, 160), (0, 0, 0, 160), (0, 0, 0, 160), (0, 0, 0, 160))"
    by (simp add: run_defs radius_def in_rounded_rect_def inside_def clamp_def power2_eq_square)
  show ?thesis unfolding a b c by (simp add: SHAPE_SIZE_def)
qed

end
